theory Spec2Isabelle
  imports Main
begin

section \<open>Data returned by the OpsWorks API\<close>

text \<open>
  The objects that \<^verbatim>\<open>src/lib/OpsWorksDeploy.js\<close> reads out of the responses of the
  AWS OpsWorks client. Only the properties the source reads are kept. The property
  \<^verbatim>\<open>Type\<close> exists on applications and on layers and \<^verbatim>\<open>Status\<close> on instances and on
  deployments, so those field names carry the name of their object as a prefix.
\<close>

record app =
  AppId :: string
  StackId :: string
  App_Type :: string

record layer =
  LayerId :: string
  Layer_Type :: string

record instance_rec =
  InstanceId :: string
  Instance_Status :: string

record deployment =
  DeploymentId :: string
  Deployment_Status :: string

section \<open>Errors\<close>

text \<open>
  The source has no error classes: every failure is either the error object of the AWS
  client passed through unchanged, or a plain \<^verbatim>\<open>new Error(message)\<close>. There is one
  constructor for each place of the source that makes an error, with the values that
  are put into its message. \<open>TypeError\<close> is the exception JavaScript throws when
  \<^verbatim>\<open>data.Instances.filter\<close> (line 207) is evaluated on a response without
  \<^verbatim>\<open>Instances\<close>.
\<close>

datatype error =
    UpstreamError string
  | AppNotFound string
  | NoLayersFound string
  | LayerNotFound string string
  | NoRunningInstances string string
  | InconsistentResult "string list"
  | DeploymentFailed
  | UnknownStatus "string option"
  | TypeError

definition quoted :: "string \<Rightarrow> string" where
  "quoted s = [CHR 0x22] @ s @ [CHR 0x22]"

fun join_comma :: "string list \<Rightarrow> string" where
  "join_comma [] = []"
| "join_comma [x] = x"
| "join_comma (x # y # ys) = x @ '','' @ join_comma (y # ys)"

text \<open>The text of each error, as the source builds it (lines 109, 135, 141, 172, 276,
  281, 307). A \<^verbatim>\<open>null\<close> status is printed as \<^verbatim>\<open>null\<close> by string concatenation.\<close>

fun message :: "error \<Rightarrow> string" where
  "message (UpstreamError e) = e"
| "message (AppNotFound appId) =
     ''Unable to find AppId '' @ quoted appId
       @ '', check if it exists and you have sufficient privileges''"
| "message (NoLayersFound stackId) =
     ''No OpsWorks layers found in StackId '' @ quoted stackId @ [CHR 0x22]
       @ '', check if a layer exists and whether you have sufficient privileges''"
| "message (LayerNotFound layerType stackId) =
     ''Unable to find layer with type '' @ quoted layerType
       @ '' in StackId '' @ quoted stackId"
| "message (NoRunningInstances layerId stackId) =
     ''No running instances found for LayerId '' @ quoted layerId
       @ '' in StackId '' @ quoted stackId"
| "message (InconsistentResult deploymentIds) =
     ''Could not retrieve all deployment statuses for deployment ids ''
       @ join_comma deploymentIds"
| "message DeploymentFailed =
     ''Deployment failed, look in Amazon OpsWorks deployment logs to see why''"
| "message (UnknownStatus status) =
     ''Unknown deployment status ''
       @ quoted (case status of None \<Rightarrow> ''null'' | Some s \<Rightarrow> s)"
| "message TypeError = ''TypeError''"

section \<open>The aggregate status of a set of deployments\<close>

text \<open>
  \<^verbatim>\<open>_determineDeploymentStatus\<close> (lines 331-343). The local variable \<^verbatim>\<open>status\<close> starts
  as \<^verbatim>\<open>null\<close> (\<open>None\<close>) and is updated once for each element of the array, in order.
  \<open>determineStep\<close> is the body of the \<^verbatim>\<open>for\<close> loop, \<open>determineLoop\<close> the loop.
\<close>

definition determineStep :: "string option \<Rightarrow> deployment \<Rightarrow> string option" where
  "determineStep status d =
     (if status = Some ''running'' \<or> Deployment_Status d = ''running''
        then Some ''running''
      else if status = Some ''failed'' \<or> Deployment_Status d = ''failed''
        then Some ''failed''
      else if status \<noteq> Some ''failed''
        then Some ''successful''
      else status)"

fun determineLoop :: "string option \<Rightarrow> deployment list \<Rightarrow> string option" where
  "determineLoop status [] = status"
| "determineLoop status (d # ds) = determineLoop (determineStep status d) ds"

definition determineDeploymentStatus :: "deployment list \<Rightarrow> string option" where
  "determineDeploymentStatus deployments = determineLoop None deployments"

section \<open>The orchestrator object, the OpsWorks client and the calls made\<close>

text \<open>
  Every call that the orchestrator makes on \<^verbatim>\<open>this.opsworks\<close>, and every timer it
  sets, is recorded in a trace, in the order in which it happens. Console output and
  the measured duration are informational and are not modelled.
\<close>

datatype event =
    DescribeApps "string list"
  | DescribeLayers string
  | DescribeInstances string
  | UpdateApp string string
  | CreateDeployment string string
  | DescribeDeployments "string list"
  | SetTimeout nat

text \<open>
  \<^verbatim>\<open>this.opsworks\<close> is an object of the AWS SDK, which is not part of the repository,
  so it is a parameter: for each operation a function from the request to the
  \<^verbatim>\<open>(err, data)\<close> pair handed to the callback, \<open>Inl\<close> for a truthy \<^verbatim>\<open>err\<close>. The remote
  service changes over time, so an answer may depend on the calls made so far (the
  first argument). The source tests \<^verbatim>\<open>data.Apps\<close>, \<^verbatim>\<open>data.Layers\<close> and
  \<^verbatim>\<open>data.Deployments\<close> for absence; \<open>None\<close> is an absent property.
\<close>

record opsworks =
  aws_describeApps :: "event list \<Rightarrow> string list \<Rightarrow> string + app list option"
  aws_describeLayers :: "event list \<Rightarrow> string \<Rightarrow> string + layer list option"
  aws_describeInstances :: "event list \<Rightarrow> string \<Rightarrow> string + instance_rec list option"
  aws_updateApp :: "event list \<Rightarrow> string \<Rightarrow> string \<Rightarrow> string option"
  aws_createDeployment :: "event list \<Rightarrow> string \<Rightarrow> string \<Rightarrow> string + string"
  aws_describeDeployments :: "event list \<Rightarrow> string list \<Rightarrow> string + deployment list option"

text \<open>
  The fields of the \<^verbatim>\<open>OpsWorksDeploy\<close> object that its methods read or write, and the
  trace. \<open>state\<close> is the property \<^verbatim>\<open>this.state\<close> read at line 264; \<open>None\<close> is
  \<^verbatim>\<open>undefined\<close> (for \<open>deployStatus\<close>, \<^verbatim>\<open>null\<close>). \<open>pollingTime\<close> is in milliseconds.
\<close>

record world =
  state :: "string option"
  deployStatus :: "string option"
  pollingTime :: nat
  trace :: "event list"

text \<open>The constructor (lines 28-33). It does not assign \<^verbatim>\<open>this.state\<close>. The argument is
  \<^verbatim>\<open>options.pollingTime\<close>; \<^verbatim>\<open>0\<close> is falsy in JavaScript.\<close>

definition new_OpsWorksDeploy :: "nat option \<Rightarrow> world" where
  "new_OpsWorksDeploy options_pollingTime =
     \<lparr>state = None,
      deployStatus = None,
      pollingTime = (case options_pollingTime of
                       None \<Rightarrow> 10000
                     | Some t \<Rightarrow> if t = 0 then 10000 else t),
      trace = []\<rparr>"

definition call :: "world \<Rightarrow> event \<Rightarrow> world" where
  "call w e = w\<lparr>trace := trace w @ [e]\<rparr>"

section \<open>The operations of the orchestrator\<close>

text \<open>
  Each method takes the client and the world and returns the world after the call
  together with what it passes to its callback: \<open>Inl\<close> an error, \<open>Inr\<close> the result.
\<close>

text \<open>\<^verbatim>\<open>findApp\<close> (lines 101-113).\<close>

definition findApp :: "opsworks \<Rightarrow> world \<Rightarrow> string \<Rightarrow> world \<times> (error + app)" where
  "findApp aws w appId =
     (let w' = call w (DescribeApps [appId]) in
      case aws_describeApps aws (trace w) [appId] of
        Inl err \<Rightarrow> (w', Inl (UpstreamError err))
      | Inr Apps \<Rightarrow>
          (case Apps of
             None \<Rightarrow> (w', Inl (AppNotFound appId))
           | Some apps \<Rightarrow>
               if length apps = 0 then (w', Inl (AppNotFound appId))
               else (w', Inr (apps ! 0))))"

text \<open>The \<^verbatim>\<open>while\<close> loop of \<^verbatim>\<open>findLayerByType\<close> (lines 174-182), with its index \<open>i\<close>
  and its variable \<open>result\<close>.\<close>

function findLayerLoop :: "layer list \<Rightarrow> string \<Rightarrow> nat \<Rightarrow> layer option \<Rightarrow> layer option" where
  "findLayerLoop Layers layerType i result =
     (if i < length Layers \<and> result = None
      then findLayerLoop Layers layerType (Suc i)
             (if Layer_Type (Layers ! i) = layerType then Some (Layers ! i) else result)
      else result)"
  by pat_completeness auto
termination
  by (relation "measure (\<lambda>(Layers, layerType, i, result). length Layers - i)") auto

text \<open>\<^verbatim>\<open>findLayerByType\<close> (lines 164-185). \<open>Inr None\<close> is the \<^verbatim>\<open>null\<close> passed to the
  callback when no layer has the type.\<close>

definition findLayerByType ::
  "opsworks \<Rightarrow> world \<Rightarrow> string \<Rightarrow> string \<Rightarrow> world \<times> (error + layer option)" where
  "findLayerByType aws w stackId layerType =
     (let w' = call w (DescribeLayers stackId) in
      case aws_describeLayers aws (trace w) stackId of
        Inl err \<Rightarrow> (w', Inl (UpstreamError err))
      | Inr Layers \<Rightarrow>
          (case Layers of
             None \<Rightarrow> (w', Inl (NoLayersFound stackId))
           | Some layers \<Rightarrow>
               if length layers = 0 then (w', Inl (NoLayersFound stackId))
               else (w', Inr (findLayerLoop layers layerType 0 None))))"

text \<open>\<^verbatim>\<open>findRunningInstancesByLayerId\<close> (lines 199-212).\<close>

definition findRunningInstancesByLayerId ::
  "opsworks \<Rightarrow> world \<Rightarrow> string \<Rightarrow> world \<times> (error + instance_rec list)" where
  "findRunningInstancesByLayerId aws w layerId =
     (let w' = call w (DescribeInstances layerId) in
      case aws_describeInstances aws (trace w) layerId of
        Inl err \<Rightarrow> (w', Inl (UpstreamError err))
      | Inr Instances \<Rightarrow>
          (case Instances of
             None \<Rightarrow> (w', Inl TypeError)
           | Some instances \<Rightarrow>
               (w', Inr (filter (\<lambda>element. Instance_Status element = ''online'') instances))))"

text \<open>\<^verbatim>\<open>findRunningInstances\<close> (lines 130-147).\<close>

definition findRunningInstances ::
  "opsworks \<Rightarrow> world \<Rightarrow> string \<Rightarrow> string \<Rightarrow> world \<times> (error + instance_rec list)" where
  "findRunningInstances aws w stackId layerType =
     (case findLayerByType aws w stackId layerType of
        (w1, Inl err) \<Rightarrow> (w1, Inl err)
      | (w1, Inr None) \<Rightarrow> (w1, Inl (LayerNotFound layerType stackId))
      | (w1, Inr (Some layer)) \<Rightarrow>
          (case findRunningInstancesByLayerId aws w1 (LayerId layer) of
             (w2, Inl err) \<Rightarrow> (w2, Inl err)
           | (w2, Inr instances) \<Rightarrow>
               if length instances = 0
               then (w2, Inl (NoRunningInstances (LayerId layer) stackId))
               else (w2, Inr instances)))"

text \<open>\<^verbatim>\<open>updateApp\<close> (lines 432-445): the callback gets the client's \<^verbatim>\<open>err\<close> as it is.\<close>

definition updateApp :: "opsworks \<Rightarrow> world \<Rightarrow> string \<Rightarrow> string \<Rightarrow> world \<times> (error + unit)" where
  "updateApp aws w appId s3SourceUrl =
     (let w' = call w (UpdateApp appId s3SourceUrl) in
      case aws_updateApp aws (trace w) appId s3SourceUrl of
        Some err \<Rightarrow> (w', Inl (UpstreamError err))
      | None \<Rightarrow> (w', Inr ()))"

text \<open>\<^verbatim>\<open>createDeployment\<close> (lines 229-245); the command is always \<^verbatim>\<open>deploy\<close>.\<close>

definition createDeployment :: "opsworks \<Rightarrow> world \<Rightarrow> string \<Rightarrow> string \<Rightarrow> world \<times> (error + string)" where
  "createDeployment aws w stackId appId =
     (let w' = call w (CreateDeployment stackId appId) in
      case aws_createDeployment aws (trace w) stackId appId of
        Inl err \<Rightarrow> (w', Inl (UpstreamError err))
      | Inr deploymentId \<Rightarrow> (w', Inr deploymentId))"

text \<open>\<^verbatim>\<open>getDeploymentStatus\<close> (lines 299-312). An empty array is truthy in JavaScript, so
  only an absent \<^verbatim>\<open>Deployments\<close> takes the first half of the test at line 306.\<close>

definition getDeploymentStatus ::
  "opsworks \<Rightarrow> world \<Rightarrow> string list \<Rightarrow> world \<times> (error + string option)" where
  "getDeploymentStatus aws w deploymentIds =
     (let w' = call w (DescribeDeployments deploymentIds) in
      case aws_describeDeployments aws (trace w) deploymentIds of
        Inl err \<Rightarrow> (w', Inl (UpstreamError err))
      | Inr Deployments \<Rightarrow>
          (case Deployments of
             None \<Rightarrow> (w', Inl (InconsistentResult deploymentIds))
           | Some deployments \<Rightarrow>
               if length deployments \<noteq> length deploymentIds
               then (w', Inl (InconsistentResult deploymentIds))
               else (w', Inr (determineDeploymentStatus deployments))))"

text \<open>The test at line 264: the value of \<^verbatim>\<open>this.state\<close> when it is one of the two
  strings compared with (the first is spelt \<^verbatim>\<open>successfull\<close> in the source).\<close>

definition earlyExit :: "world \<Rightarrow> string option" where
  "earlyExit w =
     (case state w of
        None \<Rightarrow> None
      | Some s \<Rightarrow> if s = ''successfull'' \<or> s = ''failed'' then Some s else None)"

text \<open>
  \<^verbatim>\<open>waitForDeployFinish\<close> (lines 262-285). The method reschedules itself for as long as
  the status is "running", without a bound, so the model takes the number of
  invocations it may still make: with none left the result is \<open>None\<close> (still polling),
  and the world returned is the one reached so far.
\<close>

fun waitForDeployFinish ::
  "nat \<Rightarrow> opsworks \<Rightarrow> world \<Rightarrow> string list \<Rightarrow> world \<times> (error + string) option" where
  "waitForDeployFinish 0 aws w deploymentIds = (w, None)"
| "waitForDeployFinish (Suc n) aws w deploymentIds =
     (let w0 = call w (SetTimeout (pollingTime w)) in
      case earlyExit w0 of
        Some s \<Rightarrow> (w0, Some (Inr s))
      | None \<Rightarrow>
          (case getDeploymentStatus aws w0 deploymentIds of
             (w1, Inl err) \<Rightarrow> (w1, Some (Inl err))
           | (w1, Inr status) \<Rightarrow>
               (let w2 = w1\<lparr>deployStatus := status\<rparr> in
                if status = Some ''running''
                  then waitForDeployFinish n aws w2 deploymentIds
                else if status = Some ''failed''
                  then (w2, Some (Inl DeploymentFailed))
                else if status = Some ''successful''
                  then (w2, Some (Inr ''successful''))
                else (w2, Some (Inl (UnknownStatus status))))))"

text \<open>The test \<^verbatim>\<open>if (s3SourceUrl)\<close> at line 64: \<^verbatim>\<open>null\<close>, \<^verbatim>\<open>undefined\<close> and the empty
  string are falsy.\<close>

fun truthy :: "string option \<Rightarrow> bool" where
  "truthy None = False"
| "truthy (Some s) = (s \<noteq> [])"

text \<open>
  \<^verbatim>\<open>deploy\<close> (lines 46-83): the five steps of the waterfall, each started with the
  result of the one before, the first error ending the run. A call without a source
  URL has \<open>s3SourceUrl = None\<close> (lines 48-51). The first argument bounds the polling as
  in \<open>waitForDeployFinish\<close>.
\<close>

definition deploy ::
  "nat \<Rightarrow> opsworks \<Rightarrow> world \<Rightarrow> string \<Rightarrow> string option \<Rightarrow> world \<times> (error + string) option" where
  "deploy n aws w appId s3SourceUrl =
     (case findApp aws w appId of
        (w1, Inl err) \<Rightarrow> (w1, Some (Inl err))
      | (w1, Inr app) \<Rightarrow>
     (case findRunningInstances aws w1 (StackId app) (App_Type app @ ''-app'') of
        (w2, Inl err) \<Rightarrow> (w2, Some (Inl err))
      | (w2, Inr instances) \<Rightarrow>
     (case (if truthy s3SourceUrl
            then updateApp aws w2 (AppId app) (the s3SourceUrl)
            else (w2, Inr ())) of
        (w3, Inl err) \<Rightarrow> (w3, Some (Inl err))
      | (w3, Inr _) \<Rightarrow>
     (case createDeployment aws w3 (StackId app) (AppId app) of
        (w4, Inl err) \<Rightarrow> (w4, Some (Inl err))
      | (w4, Inr deploymentId) \<Rightarrow>
          waitForDeployFinish n aws w4 [deploymentId]))))"

text \<open>
  \<^verbatim>\<open>deployLatest\<close> (lines 86-93) calls \<^verbatim>\<open>this.findLatestVersion\<close>, which exists only
  inside a comment (lines 361-413): the call throws before anything else happens.
\<close>

definition deployLatest :: "world \<Rightarrow> world \<times> (error + unit)" where
  "deployLatest w = (w, Inl TypeError)"

section \<open>Runs and their traces\<close>

text \<open>The events of polling: a timer and a status request.\<close>

fun isPoll :: "event \<Rightarrow> bool" where
  "isPoll (SetTimeout t) = True"
| "isPoll (DescribeDeployments ids) = True"
| "isPoll _ = False"

text \<open>
  The worlds an orchestrator object can be in: made by the constructor, then changed
  by its own methods only, called any number of times with any arguments.
\<close>

inductive reachable :: "opsworks \<Rightarrow> world \<Rightarrow> bool" for aws :: opsworks where
  r_new: "reachable aws (new_OpsWorksDeploy options_pollingTime)"
| r_deploy: "reachable aws w \<Longrightarrow> reachable aws (fst (deploy n aws w appId s3SourceUrl))"
| r_deployLatest: "reachable aws w \<Longrightarrow> reachable aws (fst (deployLatest w))"
| r_findApp: "reachable aws w \<Longrightarrow> reachable aws (fst (findApp aws w appId))"
| r_findRunningInstances:
    "reachable aws w \<Longrightarrow> reachable aws (fst (findRunningInstances aws w stackId layerType))"
| r_findLayerByType:
    "reachable aws w \<Longrightarrow> reachable aws (fst (findLayerByType aws w stackId layerType))"
| r_findRunningInstancesByLayerId:
    "reachable aws w \<Longrightarrow> reachable aws (fst (findRunningInstancesByLayerId aws w layerId))"
| r_createDeployment:
    "reachable aws w \<Longrightarrow> reachable aws (fst (createDeployment aws w stackId appId))"
| r_waitForDeployFinish:
    "reachable aws w \<Longrightarrow> reachable aws (fst (waitForDeployFinish n aws w deploymentIds))"
| r_getDeploymentStatus:
    "reachable aws w \<Longrightarrow> reachable aws (fst (getDeploymentStatus aws w deploymentIds))"
| r_updateApp:
    "reachable aws w \<Longrightarrow> reachable aws (fst (updateApp aws w appId s3SourceUrl))"

section \<open>A sample stack\<close>

text \<open>
  Clients for concrete runs: the applications, layers and instances given are listed
  whatever the request, every update and creation is accepted, and the \<open>k\<close>-th status
  request is answered by the \<open>k\<close>-th entry of a script (by a response without
  \<^verbatim>\<open>Deployments\<close> once the script is over).
\<close>

definition sampleApp :: app where
  "sampleApp = \<lparr>AppId = ''app-1'', StackId = ''stack-1'', App_Type = ''rails''\<rparr>"

definition sampleLayers :: "layer list" where
  "sampleLayers =
     [\<lparr>LayerId = ''layer-0'', Layer_Type = ''db-master''\<rparr>,
      \<lparr>LayerId = ''layer-1'', Layer_Type = ''rails-app''\<rparr>,
      \<lparr>LayerId = ''layer-2'', Layer_Type = ''rails-app''\<rparr>]"

definition sampleInstances :: "instance_rec list" where
  "sampleInstances =
     [\<lparr>InstanceId = ''i-1'', Instance_Status = ''stopped''\<rparr>,
      \<lparr>InstanceId = ''i-2'', Instance_Status = ''online''\<rparr>]"

definition reported :: "string list \<Rightarrow> deployment list option" where
  "reported statuses =
     Some (map (\<lambda>s. \<lparr>DeploymentId = ''d-1'', Deployment_Status = s\<rparr>) statuses)"

fun isStatusRequest :: "event \<Rightarrow> bool" where
  "isStatusRequest (DescribeDeployments ids) = True"
| "isStatusRequest _ = False"

definition scripted :: "deployment list option list \<Rightarrow> event list \<Rightarrow> deployment list option" where
  "scripted script tr =
     (let k = length (filter isStatusRequest tr)
      in if k < length script then script ! k else None)"

definition sampleClient ::
  "app list option \<Rightarrow> layer list option \<Rightarrow> instance_rec list
     \<Rightarrow> deployment list option list \<Rightarrow> opsworks" where
  "sampleClient apps layers instances script =
     \<lparr>aws_describeApps = (\<lambda>tr ids. Inr apps),
      aws_describeLayers = (\<lambda>tr stackId. Inr layers),
      aws_describeInstances = (\<lambda>tr layerId. Inr (Some instances)),
      aws_updateApp = (\<lambda>tr appId url. None),
      aws_createDeployment = (\<lambda>tr stackId appId. Inr ''d-1''),
      aws_describeDeployments = (\<lambda>tr ids. Inr (scripted script tr))\<rparr>"

text \<open>The stack in working order; the deployment is seen running once, then successful.\<close>

definition railsClient :: opsworks where
  "railsClient =
     sampleClient (Some [sampleApp]) (Some sampleLayers) sampleInstances
       [reported [''running''], reported [''successful'']]"

text \<open>The same stack with no application, with no layers, without a layer of type
  "rails-app", and with no instance online.\<close>

definition noAppClient :: opsworks where
  "noAppClient = sampleClient (Some []) (Some sampleLayers) sampleInstances []"

definition noLayersClient :: opsworks where
  "noLayersClient = sampleClient (Some [sampleApp]) (Some []) sampleInstances []"

definition otherLayerClient :: opsworks where
  "otherLayerClient =
     sampleClient (Some [sampleApp]) (Some [\<lparr>LayerId = ''layer-0'', Layer_Type = ''db-master''\<rparr>])
       sampleInstances []"

definition stoppedClient :: opsworks where
  "stoppedClient =
     sampleClient (Some [sampleApp]) (Some sampleLayers)
       [\<lparr>InstanceId = ''i-1'', Instance_Status = ''stopped''\<rparr>] []"

text \<open>Clients whose first status answer has two records, and none.\<close>

definition twoRecordsClient :: opsworks where
  "twoRecordsClient =
     sampleClient (Some [sampleApp]) (Some sampleLayers) sampleInstances
       [reported [''successful'', ''successful'']]"

definition noRecordsClient :: opsworks where
  "noRecordsClient =
     sampleClient (Some [sampleApp]) (Some sampleLayers) sampleInstances [Some []]"

text \<open>A new orchestrator with the default polling time.\<close>

definition freshWorld :: world where
  "freshWorld = new_OpsWorksDeploy None"

section \<open>Properties of the aggregate status\<close>

lemma determineLoop_running:
  "determineLoop (Some ''running'') ds = Some ''running''"
  by (induction ds) (simp_all add: determineStep_def)

lemma determineLoop_failed:
  "determineLoop (Some ''failed'') ds =
     (if ''running'' \<in> Deployment_Status ` set ds then Some ''running'' else Some ''failed'')"
  by (induction ds) (simp_all add: determineStep_def determineLoop_running)

lemma determineLoop_successful:
  "determineLoop (Some ''successful'') ds =
     (if ''running'' \<in> Deployment_Status ` set ds then Some ''running''
      else if ''failed'' \<in> Deployment_Status ` set ds then Some ''failed''
      else Some ''successful'')"
  by (induction ds)
     (simp_all add: determineStep_def determineLoop_running determineLoop_failed)

lemma determineDeploymentStatus_Cons:
  "determineDeploymentStatus (d # ds) =
     (if ''running'' \<in> Deployment_Status ` set (d # ds) then Some ''running''
      else if ''failed'' \<in> Deployment_Status ` set (d # ds) then Some ''failed''
      else Some ''successful'')"
  by (simp add: determineDeploymentStatus_def determineStep_def determineLoop_running
      determineLoop_failed determineLoop_successful)

text \<open>The aggregate is \<^verbatim>\<open>null\<close> for the empty list only, and one of the three
  statuses otherwise, whatever statuses the deployments report.\<close>

lemma determineDeploymentStatus_range:
  "determineDeploymentStatus ds =
     (if ds = [] then None
      else if ''running'' \<in> Deployment_Status ` set ds then Some ''running''
      else if ''failed'' \<in> Deployment_Status ` set ds then Some ''failed''
      else Some ''successful'')"
proof (cases ds)
  case Nil
  then show ?thesis by (simp add: determineDeploymentStatus_def)
next
  case (Cons d ds')
  show ?thesis unfolding Cons determineDeploymentStatus_Cons by simp
qed

text \<open>
  Claim C1. For every non-empty list of deployments whose statuses are all among
  "running", "failed" and "successful", the aggregate is "running" if any member is
  running (whatever the others are, failed ones included), otherwise "failed" if any
  member is failed, otherwise "successful".
\<close>

theorem determineDeploymentStatus_precedence:
  assumes "ds \<noteq> []"
    and "Deployment_Status ` set ds \<subseteq> {''running'', ''failed'', ''successful''}"
  shows "determineDeploymentStatus ds =
     (if \<exists>d \<in> set ds. Deployment_Status d = ''running'' then Some ''running''
      else if \<exists>d \<in> set ds. Deployment_Status d = ''failed'' then Some ''failed''
      else Some ''successful'')"
proof -
  from assms(1) obtain d ds' where ds: "ds = d # ds'"
    by (cases ds) auto
  have img: "\<And>s. (s \<in> Deployment_Status ` set ds) = (\<exists>d \<in> set ds. Deployment_Status d = s)"
    by auto
  show ?thesis
    unfolding img [symmetric] unfolding ds
    by (rule determineDeploymentStatus_Cons)
qed

theorem determineDeploymentStatus_precedence_witness:
  "[\<lparr>DeploymentId = ''a'', Deployment_Status = ''successful''\<rparr>,
    \<lparr>DeploymentId = ''b'', Deployment_Status = ''running''\<rparr>,
    \<lparr>DeploymentId = ''c'', Deployment_Status = ''failed''\<rparr>] \<noteq> []
   \<and> Deployment_Status ` set
       [\<lparr>DeploymentId = ''a'', Deployment_Status = ''successful''\<rparr>,
        \<lparr>DeploymentId = ''b'', Deployment_Status = ''running''\<rparr>,
        \<lparr>DeploymentId = ''c'', Deployment_Status = ''failed''\<rparr>]
       \<subseteq> {''running'', ''failed'', ''successful''}
   \<and> determineDeploymentStatus
       [\<lparr>DeploymentId = ''a'', Deployment_Status = ''successful''\<rparr>,
        \<lparr>DeploymentId = ''b'', Deployment_Status = ''running''\<rparr>,
        \<lparr>DeploymentId = ''c'', Deployment_Status = ''failed''\<rparr>] = Some ''running''"
  using determineDeploymentStatus_precedence
    [of "[\<lparr>DeploymentId = ''a'', Deployment_Status = ''successful''\<rparr>,
          \<lparr>DeploymentId = ''b'', Deployment_Status = ''running''\<rparr>,
          \<lparr>DeploymentId = ''c'', Deployment_Status = ''failed''\<rparr>]"]
  by simp

section \<open>Looking up the application and the layer\<close>

declare findLayerLoop.simps [simp del]

lemmas sample_defs =
  sampleClient_def railsClient_def noAppClient_def noLayersClient_def otherLayerClient_def
  stoppedClient_def twoRecordsClient_def noRecordsClient_def freshWorld_def
  new_OpsWorksDeploy_def sampleApp_def sampleLayers_def sampleInstances_def reported_def
  scripted_def

lemma findLayerLoop_found: "findLayerLoop ls t i (Some r) = Some r"
  by (subst findLayerLoop.simps) simp

lemma findLayerLoop_find:
  "findLayerLoop ls t i None = find (\<lambda>l. Layer_Type l = t) (drop i ls)"
proof (induction "length ls - i" arbitrary: i)
  case 0
  then show ?case by (subst findLayerLoop.simps) simp
next
  case (Suc k)
  then have i: "i < length ls" by simp
  have k: "k = length ls - Suc i" using Suc.hyps(2) by simp
  have d: "drop i ls = ls ! i # drop (Suc i) ls"
    using i by (simp add: Cons_nth_drop_Suc)
  show ?case
  proof (cases "Layer_Type (ls ! i) = t")
    case True
    then show ?thesis
      using i by (subst findLayerLoop.simps) (simp add: d findLayerLoop_found)
  next
    case False
    then show ?thesis
      using i Suc.hyps(1) [OF k] by (subst findLayerLoop.simps) (simp add: d)
  qed
qed

lemma no_layer_of_type: "(\<forall>l \<in> set ls. Layer_Type l \<noteq> t) \<Longrightarrow> find (\<lambda>l. Layer_Type l = t) ls = None"
  by (simp add: find_None_iff)

lemma first_layer_of_type:
  "\<forall>x \<in> set pre. Layer_Type x \<noteq> t \<Longrightarrow> Layer_Type l = t \<Longrightarrow>
     find (\<lambda>l. Layer_Type l = t) (pre @ l # post) = Some l"
  by (induction pre) simp_all

text \<open>
  Claim C8. When the backend answers the lookup of an application id without an API
  error, \<open>findApp\<close> fails with the application-not-found error exactly when the list of
  applications in the answer is absent or empty; otherwise it succeeds with one record,
  the first application of the list.
\<close>

theorem findApp_result:
  assumes "aws_describeApps aws (trace w) [appId] = Inr Apps"
  shows "(snd (findApp aws w appId) = Inl (AppNotFound appId)) = (Apps = None \<or> Apps = Some [])
       \<and> (\<forall>a rest. Apps = Some (a # rest) \<longrightarrow> snd (findApp aws w appId) = Inr a)"
  using assms by (auto simp: findApp_def Let_def split: option.splits)

theorem findApp_result_witness:
  "aws_describeApps railsClient (trace freshWorld) [''app-1''] = Inr (Some [sampleApp])
   \<and> snd (findApp railsClient freshWorld ''app-1'') = Inr sampleApp
   \<and> aws_describeApps noAppClient (trace freshWorld) [''app-1''] = Inr (Some [])
   \<and> snd (findApp noAppClient freshWorld ''app-1'') = Inl (AppNotFound ''app-1'')"
proof -
  have h1: "aws_describeApps railsClient (trace freshWorld) [''app-1''] = Inr (Some [sampleApp])"
    by (simp add: sample_defs)
  have h2: "aws_describeApps noAppClient (trace freshWorld) [''app-1''] = Inr (Some [])"
    by (simp add: sample_defs)
  show ?thesis
    using h1 h2 findApp_result [OF h1] findApp_result [OF h2] by simp
qed

text \<open>
  Claim C4. When the listing of the layers of a stack succeeds: with no layers (an
  absent or empty list) \<open>findLayerByType\<close> fails with an error; with at least one
  layer but none whose type equals the query it succeeds with \<^verbatim>\<open>null\<close> (\<open>Inr None\<close>, not
  an error); otherwise it returns the first layer, in the order of the listing, whose
  type equals the query.
\<close>

theorem findLayerByType_result:
  assumes "aws_describeLayers aws (trace w) stackId = Inr Layers"
  shows "(Layers = None \<or> Layers = Some [] \<longrightarrow>
            snd (findLayerByType aws w stackId layerType) = Inl (NoLayersFound stackId))
       \<and> (\<forall>ls. Layers = Some ls \<and> ls \<noteq> [] \<and> (\<forall>l \<in> set ls. Layer_Type l \<noteq> layerType) \<longrightarrow>
            snd (findLayerByType aws w stackId layerType) = Inr None)
       \<and> (\<forall>pre l post. Layers = Some (pre @ l # post) \<and> Layer_Type l = layerType
              \<and> (\<forall>x \<in> set pre. Layer_Type x \<noteq> layerType) \<longrightarrow>
            snd (findLayerByType aws w stackId layerType) = Inr (Some l))"
  using assms
  by (auto simp: findLayerByType_def Let_def findLayerLoop_find no_layer_of_type first_layer_of_type)

theorem findLayerByType_result_witness:
  "aws_describeLayers railsClient (trace freshWorld) ''stack-1'' =
     Inr (Some ([\<lparr>LayerId = ''layer-0'', Layer_Type = ''db-master''\<rparr>]
                @ \<lparr>LayerId = ''layer-1'', Layer_Type = ''rails-app''\<rparr>
                # [\<lparr>LayerId = ''layer-2'', Layer_Type = ''rails-app''\<rparr>]))
   \<and> snd (findLayerByType railsClient freshWorld ''stack-1'' ''rails-app'') =
       Inr (Some \<lparr>LayerId = ''layer-1'', Layer_Type = ''rails-app''\<rparr>)
   \<and> snd (findLayerByType railsClient freshWorld ''stack-1'' ''php-app'') = Inr None
   \<and> aws_describeLayers noLayersClient (trace freshWorld) ''stack-1'' = Inr (Some [])
   \<and> snd (findLayerByType noLayersClient freshWorld ''stack-1'' ''rails-app'') =
       Inl (NoLayersFound ''stack-1'')"
proof -
  have h1: "aws_describeLayers railsClient (trace freshWorld) ''stack-1'' =
     Inr (Some ([\<lparr>LayerId = ''layer-0'', Layer_Type = ''db-master''\<rparr>]
                @ \<lparr>LayerId = ''layer-1'', Layer_Type = ''rails-app''\<rparr>
                # [\<lparr>LayerId = ''layer-2'', Layer_Type = ''rails-app''\<rparr>]))"
    by (simp add: sample_defs)
  have h2: "aws_describeLayers noLayersClient (trace freshWorld) ''stack-1'' = Inr (Some [])"
    by (simp add: sample_defs)
  have a: "snd (findLayerByType railsClient freshWorld ''stack-1'' ''rails-app'') =
       Inr (Some \<lparr>LayerId = ''layer-1'', Layer_Type = ''rails-app''\<rparr>)"
    using findLayerByType_result [OF h1, of "''rails-app''", THEN conjunct2, THEN conjunct2,
        rule_format, where pre = "[\<lparr>LayerId = ''layer-0'', Layer_Type = ''db-master''\<rparr>]"
          and l = "\<lparr>LayerId = ''layer-1'', Layer_Type = ''rails-app''\<rparr>"
          and post = "[\<lparr>LayerId = ''layer-2'', Layer_Type = ''rails-app''\<rparr>]"]
    by simp
  have b: "snd (findLayerByType railsClient freshWorld ''stack-1'' ''php-app'') = Inr None"
    using findLayerByType_result [OF h1, of "''php-app''"] by simp
  have c: "snd (findLayerByType noLayersClient freshWorld ''stack-1'' ''rails-app'') =
       Inl (NoLayersFound ''stack-1'')"
    using findLayerByType_result [OF h2, of "''rails-app''"] by simp
  show ?thesis using h1 h2 a b c by simp
qed

section \<open>The world after each operation\<close>

lemma call_fields [simp]:
  "state (call w e) = state w" "deployStatus (call w e) = deployStatus w"
  "pollingTime (call w e) = pollingTime w" "trace (call w e) = trace w @ [e]"
  by (simp_all add: call_def)

lemma fst_findApp: "fst (findApp aws w appId) = call w (DescribeApps [appId])"
  by (simp add: findApp_def Let_def split: sum.splits option.splits)

lemma fst_findLayerByType:
  "fst (findLayerByType aws w stackId layerType) = call w (DescribeLayers stackId)"
  by (simp add: findLayerByType_def Let_def split: sum.splits option.splits)

lemma fst_findRunningInstancesByLayerId:
  "fst (findRunningInstancesByLayerId aws w layerId) = call w (DescribeInstances layerId)"
  by (simp add: findRunningInstancesByLayerId_def Let_def split: sum.splits option.splits)

lemma fst_updateApp:
  "fst (updateApp aws w appId url) = call w (UpdateApp appId url)"
  by (simp add: updateApp_def Let_def split: option.splits)

lemma fst_createDeployment:
  "fst (createDeployment aws w stackId appId) = call w (CreateDeployment stackId appId)"
  by (simp add: createDeployment_def Let_def split: sum.splits)

lemma fst_getDeploymentStatus:
  "fst (getDeploymentStatus aws w ids) = call w (DescribeDeployments ids)"
  by (simp add: getDeploymentStatus_def Let_def split: sum.splits option.splits)

lemma earlyExit_call [simp]: "earlyExit (call w e) = earlyExit w"
  by (simp add: earlyExit_def)

lemma earlyExit_deployStatus [simp]: "earlyExit (w\<lparr>deployStatus := s\<rparr>) = earlyExit w"
  by (simp add: earlyExit_def)

lemma earlyExit_None:
  "(earlyExit w = None) = (state w \<noteq> Some ''successfull'' \<and> state w \<noteq> Some ''failed'')"
  by (auto simp: earlyExit_def split: option.splits)

lemma findRunningInstances_cases:
  "(fst (findRunningInstances aws w stackId layerType) = call w (DescribeLayers stackId)
      \<and> (\<exists>e. snd (findRunningInstances aws w stackId layerType) = Inl e))
   \<or> (\<exists>layer. snd (findLayerByType aws w stackId layerType) = Inr (Some layer)
        \<and> fst (findRunningInstances aws w stackId layerType) =
            call (call w (DescribeLayers stackId)) (DescribeInstances (LayerId layer)))"
proof (cases "findLayerByType aws w stackId layerType")
  case (Pair w1 r)
  then have w1: "w1 = call w (DescribeLayers stackId)"
    using fst_findLayerByType [of aws w stackId layerType] by simp
  show ?thesis
  proof (cases r)
    case (Inl e)
    then show ?thesis using Pair w1 by (simp add: findRunningInstances_def)
  next
    case (Inr lo)
    show ?thesis
    proof (cases lo)
      case None
      then show ?thesis using Pair Inr w1 by (simp add: findRunningInstances_def)
    next
      case (Some layer)
      obtain w2 r2 where p2: "findRunningInstancesByLayerId aws w1 (LayerId layer) = (w2, r2)"
        by (cases "findRunningInstancesByLayerId aws w1 (LayerId layer)")
      then have w2: "w2 = call w1 (DescribeInstances (LayerId layer))"
        using fst_findRunningInstancesByLayerId [of aws w1 "LayerId layer"] by simp
      show ?thesis
        using Pair Inr Some p2 w1 w2
        by (simp add: findRunningInstances_def split: sum.splits)
    qed
  qed
qed

lemma state_findRunningInstances:
  "state (fst (findRunningInstances aws w stackId layerType)) = state w"
  using findRunningInstances_cases [of aws w stackId layerType] by auto

lemma pollingTime_findRunningInstances:
  "pollingTime (fst (findRunningInstances aws w stackId layerType)) = pollingTime w"
  using findRunningInstances_cases [of aws w stackId layerType] by auto

lemma findRunningInstances_found:
  assumes "findLayerByType aws w stackId layerType = (w1, Inr (Some layer))"
  shows "fst (findRunningInstances aws w stackId layerType) =
           call w1 (DescribeInstances (LayerId layer))"
proof -
  obtain w2 r2 where p2: "findRunningInstancesByLayerId aws w1 (LayerId layer) = (w2, r2)"
    by (cases "findRunningInstancesByLayerId aws w1 (LayerId layer)")
  then have w2: "w2 = call w1 (DescribeInstances (LayerId layer))"
    using fst_findRunningInstancesByLayerId [of aws w1 "LayerId layer"] by simp
  show ?thesis
    using assms p2 w2 by (simp add: findRunningInstances_def split: sum.splits)
qed

section \<open>Running instances\<close>

text \<open>
  Claim C5. When the listing of the instances of a layer succeeds,
  \<open>findRunningInstancesByLayerId\<close> returns exactly the entries whose status is "online",
  in their order, and an empty list, without an error, when no entry is online. The
  emptiness is checked one level up: \<open>findRunningInstances\<close>, once it has found the
  layer, fails with the no-running-instances error exactly when the filtered list is
  empty.
\<close>

theorem findRunningInstances_online:
  assumes "aws_describeInstances aws (trace w) layerId = Inr (Some instances)"
  shows "snd (findRunningInstancesByLayerId aws w layerId) =
           Inr (filter (\<lambda>e. Instance_Status e = ''online'') instances)
       \<and> ((\<forall>e \<in> set instances. Instance_Status e \<noteq> ''online'') \<longrightarrow>
            snd (findRunningInstancesByLayerId aws w layerId) = Inr [])
       \<and> (\<forall>w0 stackId layerType layer.
            findLayerByType aws w0 stackId layerType = (w, Inr (Some layer))
              \<and> LayerId layer = layerId \<longrightarrow>
            snd (findRunningInstances aws w0 stackId layerType) =
              (if filter (\<lambda>e. Instance_Status e = ''online'') instances = []
               then Inl (NoRunningInstances layerId stackId)
               else Inr (filter (\<lambda>e. Instance_Status e = ''online'') instances)))"
proof -
  have a: "findRunningInstancesByLayerId aws w layerId =
      (call w (DescribeInstances layerId),
       Inr (filter (\<lambda>e. Instance_Status e = ''online'') instances))"
    using assms by (simp add: findRunningInstancesByLayerId_def Let_def)
  have b: "(\<forall>e \<in> set instances. Instance_Status e \<noteq> ''online'') \<Longrightarrow>
      filter (\<lambda>e. Instance_Status e = ''online'') instances = []"
    by (simp add: filter_empty_conv)
  show ?thesis
    using a b by (auto simp: findRunningInstances_def)
qed

theorem findRunningInstances_online_witness:
  "aws_describeInstances railsClient (trace (call freshWorld (DescribeLayers ''stack-1''))) ''layer-1'' =
     Inr (Some sampleInstances)
   \<and> snd (findRunningInstancesByLayerId railsClient
            (call freshWorld (DescribeLayers ''stack-1'')) ''layer-1'') =
       Inr [\<lparr>InstanceId = ''i-2'', Instance_Status = ''online''\<rparr>]
   \<and> snd (findRunningInstances railsClient freshWorld ''stack-1'' ''rails-app'') =
       Inr [\<lparr>InstanceId = ''i-2'', Instance_Status = ''online''\<rparr>]
   \<and> snd (findRunningInstancesByLayerId stoppedClient
            (call freshWorld (DescribeLayers ''stack-1'')) ''layer-1'') = Inr []
   \<and> snd (findRunningInstances stoppedClient freshWorld ''stack-1'' ''rails-app'') =
       Inl (NoRunningInstances ''layer-1'' ''stack-1'')"
proof -
  let ?w = "call freshWorld (DescribeLayers ''stack-1'')"
  let ?l = "\<lparr>LayerId = ''layer-1'', Layer_Type = ''rails-app''\<rparr>"
  have h1: "aws_describeInstances railsClient (trace ?w) ''layer-1'' = Inr (Some sampleInstances)"
    by (simp add: sample_defs)
  have h2: "aws_describeInstances stoppedClient (trace ?w) ''layer-1'' =
      Inr (Some [\<lparr>InstanceId = ''i-1'', Instance_Status = ''stopped''\<rparr>])"
    by (simp add: sample_defs)
  have l1: "findLayerByType railsClient freshWorld ''stack-1'' ''rails-app'' = (?w, Inr (Some ?l))"
    by (simp add: sample_defs findLayerByType_def Let_def findLayerLoop_find)
  have l2: "findLayerByType stoppedClient freshWorld ''stack-1'' ''rails-app'' = (?w, Inr (Some ?l))"
    by (simp add: sample_defs findLayerByType_def Let_def findLayerLoop_find)
  note t1 = findRunningInstances_online [OF h1]
  note t2 = findRunningInstances_online [OF h2]
  have a: "snd (findRunningInstancesByLayerId railsClient ?w ''layer-1'') =
       Inr [\<lparr>InstanceId = ''i-2'', Instance_Status = ''online''\<rparr>]"
    using t1 [THEN conjunct1] by (simp add: sampleInstances_def)
  have b: "snd (findRunningInstances railsClient freshWorld ''stack-1'' ''rails-app'') =
       Inr [\<lparr>InstanceId = ''i-2'', Instance_Status = ''online''\<rparr>]"
    using t1 [THEN conjunct2, THEN conjunct2, rule_format, of freshWorld "''stack-1''"
        "''rails-app''" ?l] l1
    by (simp add: sampleInstances_def)
  have c: "snd (findRunningInstancesByLayerId stoppedClient ?w ''layer-1'') = Inr []"
    using t2 [THEN conjunct2, THEN conjunct1] by simp
  have d: "snd (findRunningInstances stoppedClient freshWorld ''stack-1'' ''rails-app'') =
       Inl (NoRunningInstances ''layer-1'' ''stack-1'')"
    using t2 [THEN conjunct2, THEN conjunct2, rule_format, of freshWorld "''stack-1''"
        "''rails-app''" ?l] l2
    by simp
  show ?thesis using h1 a b c d by simp
qed

section \<open>The status of the deployments\<close>

text \<open>
  Claim C3, as the code has it. When the backend answers the status request without an
  API error, \<open>getDeploymentStatus\<close> fails with the inconsistent-result error exactly
  when the answer has no list of deployments or the number of records in it differs
  from the number of deployment ids requested, whether fewer or more (the test at line
  306 is \<^verbatim>\<open>!==\<close>); when there are exactly as many records as ids, no such error is
  raised and the aggregate status of the records is produced.
\<close>

theorem getDeploymentStatus_result:
  assumes "aws_describeDeployments aws (trace w) ids = Inr Deployments"
  shows "snd (getDeploymentStatus aws w ids) =
     (case Deployments of
        None \<Rightarrow> Inl (InconsistentResult ids)
      | Some ds \<Rightarrow> if length ds = length ids then Inr (determineDeploymentStatus ds)
                  else Inl (InconsistentResult ids))"
  using assms by (auto simp: getDeploymentStatus_def Let_def split: option.splits)

theorem getDeploymentStatus_result_witness:
  "aws_describeDeployments railsClient (trace freshWorld) [''d-1''] =
     Inr (Some [\<lparr>DeploymentId = ''d-1'', Deployment_Status = ''running''\<rparr>])
   \<and> snd (getDeploymentStatus railsClient freshWorld [''d-1'']) = Inr (Some ''running'')
   \<and> aws_describeDeployments noRecordsClient (trace freshWorld) [''d-1''] = Inr (Some [])
   \<and> snd (getDeploymentStatus noRecordsClient freshWorld [''d-1'']) =
       Inl (InconsistentResult [''d-1''])"
proof -
  have h1: "aws_describeDeployments railsClient (trace freshWorld) [''d-1''] =
     Inr (Some [\<lparr>DeploymentId = ''d-1'', Deployment_Status = ''running''\<rparr>])"
    by (simp add: sample_defs)
  have h2: "aws_describeDeployments noRecordsClient (trace freshWorld) [''d-1''] = Inr (Some [])"
    by (simp add: sample_defs)
  show ?thesis
    using h1 h2 getDeploymentStatus_result [OF h1] getDeploymentStatus_result [OF h2]
    by (simp add: determineDeploymentStatus_def determineStep_def)
qed

text \<open>
  Claim C3 as it was stated says that no inconsistent-result error is raised when at
  least as many records as ids are returned. With one id requested and two records
  returned the error is raised.
\<close>

theorem getDeploymentStatus_more_records_counterexample:
  "aws_describeDeployments twoRecordsClient (trace freshWorld) [''d-1''] =
     Inr (Some [\<lparr>DeploymentId = ''d-1'', Deployment_Status = ''successful''\<rparr>,
                \<lparr>DeploymentId = ''d-1'', Deployment_Status = ''successful''\<rparr>])
   \<and> length [''d-1''] \<le>
       length [\<lparr>DeploymentId = ''d-1'', Deployment_Status = ''successful''\<rparr>,
               \<lparr>DeploymentId = ''d-1'', Deployment_Status = ''successful''\<rparr>]
   \<and> snd (getDeploymentStatus twoRecordsClient freshWorld [''d-1'']) =
       Inl (InconsistentResult [''d-1''])"
  by (simp add: sample_defs getDeploymentStatus_def Let_def)

section \<open>Polling\<close>

declare waitForDeployFinish.simps(2) [simp del]

lemma waitForDeployFinish_unfold:
  assumes "earlyExit w = None"
  shows "waitForDeployFinish (Suc n) aws w ids =
     (case snd (getDeploymentStatus aws (call w (SetTimeout (pollingTime w))) ids) of
        Inl err \<Rightarrow>
          (call (call w (SetTimeout (pollingTime w))) (DescribeDeployments ids), Some (Inl err))
      | Inr status \<Rightarrow>
          if status = Some ''running''
          then waitForDeployFinish n aws
                 ((call (call w (SetTimeout (pollingTime w))) (DescribeDeployments ids))
                    \<lparr>deployStatus := status\<rparr>) ids
          else ((call (call w (SetTimeout (pollingTime w))) (DescribeDeployments ids))
                    \<lparr>deployStatus := status\<rparr>,
                Some (if status = Some ''failed'' then Inl DeploymentFailed
                      else if status = Some ''successful'' then Inr ''successful''
                      else Inl (UnknownStatus status))))"
proof -
  obtain w1 r where p: "getDeploymentStatus aws (call w (SetTimeout (pollingTime w))) ids = (w1, r)"
    by (cases "getDeploymentStatus aws (call w (SetTimeout (pollingTime w))) ids")
  then have w1: "w1 = call (call w (SetTimeout (pollingTime w))) (DescribeDeployments ids)"
    using fst_getDeploymentStatus [of aws "call w (SetTimeout (pollingTime w))" ids] by simp
  show ?thesis
    using assms p w1 by (simp add: waitForDeployFinish.simps(2) Let_def split: sum.splits)
qed

lemma waitForDeployFinish_polls:
  assumes "earlyExit w = None"
  shows "\<exists>k. k \<le> n \<and> (0 < n \<longrightarrow> 0 < k)
           \<and> (snd (waitForDeployFinish n aws w ids) = None \<longrightarrow> k = n)
           \<and> state (fst (waitForDeployFinish n aws w ids)) = state w
           \<and> pollingTime (fst (waitForDeployFinish n aws w ids)) = pollingTime w
           \<and> trace (fst (waitForDeployFinish n aws w ids)) =
               trace w @ concat (replicate k [SetTimeout (pollingTime w), DescribeDeployments ids])"
  using assms
proof (induction n arbitrary: w)
  case 0
  then show ?case by simp
next
  case (Suc n)
  let ?w1 = "call (call w (SetTimeout (pollingTime w))) (DescribeDeployments ids)"
  show ?case
  proof (cases "snd (getDeploymentStatus aws (call w (SetTimeout (pollingTime w))) ids)")
    case (Inl err)
    have eq: "waitForDeployFinish (Suc n) aws w ids = (?w1, Some (Inl err))"
      using Inl by (simp add: waitForDeployFinish_unfold [OF Suc.prems])
    show ?thesis unfolding eq by (rule exI [of _ "Suc 0"]) simp
  next
    case (Inr status)
    let ?w2 = "?w1\<lparr>deployStatus := status\<rparr>"
    show ?thesis
    proof (cases "status = Some ''running''")
      case True
      have eq: "waitForDeployFinish (Suc n) aws w ids = waitForDeployFinish n aws ?w2 ids"
        using Inr True by (simp add: waitForDeployFinish_unfold [OF Suc.prems])
      have "earlyExit ?w2 = None" using Suc.prems by simp
      from Suc.IH [OF this] obtain k where k:
        "k \<le> n \<and> (0 < n \<longrightarrow> 0 < k)
           \<and> (snd (waitForDeployFinish n aws ?w2 ids) = None \<longrightarrow> k = n)
           \<and> state (fst (waitForDeployFinish n aws ?w2 ids)) = state ?w2
           \<and> pollingTime (fst (waitForDeployFinish n aws ?w2 ids)) = pollingTime ?w2
           \<and> trace (fst (waitForDeployFinish n aws ?w2 ids)) =
               trace ?w2 @ concat (replicate k [SetTimeout (pollingTime ?w2), DescribeDeployments ids])" ..
      show ?thesis
        unfolding eq using k by (intro exI [of _ "Suc k"]) simp
    next
      case False
      obtain r where eq: "waitForDeployFinish (Suc n) aws w ids = (?w2, Some r)"
        using Inr False by (simp add: waitForDeployFinish_unfold [OF Suc.prems])
      show ?thesis unfolding eq by (rule exI [of _ "Suc 0"]) simp
    qed
  qed
qed

lemma waitForDeployFinish_frame:
  "state (fst (waitForDeployFinish n aws w ids)) = state w
   \<and> pollingTime (fst (waitForDeployFinish n aws w ids)) = pollingTime w
   \<and> (\<exists>polls. list_all isPoll polls
        \<and> trace (fst (waitForDeployFinish n aws w ids)) = trace w @ polls)"
proof (cases "earlyExit w")
  case None
  from waitForDeployFinish_polls [OF this, of n aws ids] obtain k where
    "state (fst (waitForDeployFinish n aws w ids)) = state w"
    "pollingTime (fst (waitForDeployFinish n aws w ids)) = pollingTime w"
    "trace (fst (waitForDeployFinish n aws w ids)) =
               trace w @ concat (replicate k [SetTimeout (pollingTime w), DescribeDeployments ids])"
    by blast
  moreover have "list_all isPoll (concat (replicate k [SetTimeout (pollingTime w), DescribeDeployments ids]))"
    by (induction k) simp_all
  ultimately show ?thesis by blast
next
  case (Some s)
  show ?thesis
  proof (cases n)
    case 0
    then show ?thesis by simp
  next
    case (Suc m)
    then have "waitForDeployFinish n aws w ids = (call w (SetTimeout (pollingTime w)), Some (Inr s))"
      using Some by (simp add: waitForDeployFinish.simps(2) Let_def)
    then show ?thesis by simp
  qed
qed

lemmas run_defs =
  deploy_def findApp_def findRunningInstances_def findLayerByType_def findLayerLoop_find
  findRunningInstancesByLayerId_def updateApp_def createDeployment_def
  waitForDeployFinish.simps(2) getDeploymentStatus_def determineDeploymentStatus_def
  determineStep_def earlyExit_def call_def Let_def

text \<open>
  Claim C2. In every polling iteration of \<open>waitForDeployFinish\<close> (an invocation that
  does not leave through the test of \<^verbatim>\<open>this.state\<close>, and whose status request is
  answered with one record for each id) the outcome depends on the aggregate status
  only: "running" makes the method call itself again, and that next invocation starts
  by waiting the polling interval; "failed" ends the run with the error that sends the
  caller to the OpsWorks deployment logs; "successful" ends the run with the result
  "successful" and no error; any other aggregate ends the run with the unknown-status
  error. In each case the aggregate is stored in \<^verbatim>\<open>this.deployStatus\<close>.
\<close>

theorem waitForDeployFinish_iteration:
  assumes "state w \<noteq> Some ''successfull''" and "state w \<noteq> Some ''failed''"
    and "aws_describeDeployments aws (trace w @ [SetTimeout (pollingTime w)]) ids = Inr (Some ds)"
    and "length ds = length ids"
    and "w' = w\<lparr>deployStatus := determineDeploymentStatus ds,
                 trace := trace w @ [SetTimeout (pollingTime w), DescribeDeployments ids]\<rparr>"
  shows "waitForDeployFinish (Suc n) aws w ids =
           (if determineDeploymentStatus ds = Some ''running''
              then waitForDeployFinish n aws w' ids
            else if determineDeploymentStatus ds = Some ''failed''
              then (w', Some (Inl DeploymentFailed))
            else if determineDeploymentStatus ds = Some ''successful''
              then (w', Some (Inr ''successful''))
            else (w', Some (Inl (UnknownStatus (determineDeploymentStatus ds)))))
       \<and> (\<exists>rest. trace (fst (waitForDeployFinish (Suc m) aws w' ids)) =
             trace w' @ SetTimeout (pollingTime w) # rest)
       \<and> message DeploymentFailed =
           ''Deployment failed, look in Amazon OpsWorks deployment logs to see why''"
proof -
  have e: "earlyExit w = None"
    using assms(1,2) by (simp add: earlyExit_None)
  have g: "snd (getDeploymentStatus aws (call w (SetTimeout (pollingTime w))) ids) =
      Inr (determineDeploymentStatus ds)"
    using assms(3,4) by (simp add: getDeploymentStatus_def Let_def)
  have w': "(call (call w (SetTimeout (pollingTime w))) (DescribeDeployments ids))
      \<lparr>deployStatus := determineDeploymentStatus ds\<rparr> = w'"
    using assms(5) by (simp add: call_def)
  have first: "waitForDeployFinish (Suc n) aws w ids =
           (if determineDeploymentStatus ds = Some ''running''
              then waitForDeployFinish n aws w' ids
            else if determineDeploymentStatus ds = Some ''failed''
              then (w', Some (Inl DeploymentFailed))
            else if determineDeploymentStatus ds = Some ''successful''
              then (w', Some (Inr ''successful''))
            else (w', Some (Inl (UnknownStatus (determineDeploymentStatus ds)))))"
    unfolding waitForDeployFinish_unfold [OF e] g sum.case w' by simp
  have e': "earlyExit w' = None"
    using e assms(5) by (simp add: earlyExit_def)
  have pt: "pollingTime w' = pollingTime w"
    using assms(5) by simp
  from waitForDeployFinish_polls [OF e', where n = "Suc m" and aws = aws and ids = ids] obtain k where
    k: "0 < k" and tr: "trace (fst (waitForDeployFinish (Suc m) aws w' ids)) =
       trace w' @ concat (replicate k [SetTimeout (pollingTime w'), DescribeDeployments ids])"
    by auto
  from k obtain j where "k = Suc j" by (cases k) auto
  then have second: "\<exists>rest. trace (fst (waitForDeployFinish (Suc m) aws w' ids)) =
             trace w' @ SetTimeout (pollingTime w) # rest"
    using tr pt by simp
  show ?thesis
    using first second by simp
qed

theorem waitForDeployFinish_iteration_witness:
  "state freshWorld \<noteq> Some ''successfull'' \<and> state freshWorld \<noteq> Some ''failed''
   \<and> aws_describeDeployments railsClient
        (trace freshWorld @ [SetTimeout (pollingTime freshWorld)]) [''d-1''] =
       Inr (Some [\<lparr>DeploymentId = ''d-1'', Deployment_Status = ''running''\<rparr>])
   \<and> length [\<lparr>DeploymentId = ''d-1'', Deployment_Status = ''running''\<rparr>] = length [''d-1'']
   \<and> waitForDeployFinish (Suc (Suc 0)) railsClient freshWorld [''d-1''] =
       (\<lparr>state = None, deployStatus = Some ''successful'', pollingTime = 10000,
         trace = [SetTimeout 10000, DescribeDeployments [''d-1''],
                  SetTimeout 10000, DescribeDeployments [''d-1'']]\<rparr>,
        Some (Inr ''successful''))"
proof -
  let ?w1 = "freshWorld\<lparr>deployStatus :=
                 determineDeploymentStatus [\<lparr>DeploymentId = ''d-1'', Deployment_Status = ''running''\<rparr>],
               trace := trace freshWorld @ [SetTimeout (pollingTime freshWorld),
                                            DescribeDeployments [''d-1'']]\<rparr>"
  let ?w2 = "?w1\<lparr>deployStatus :=
                 determineDeploymentStatus [\<lparr>DeploymentId = ''d-1'', Deployment_Status = ''successful''\<rparr>],
               trace := trace ?w1 @ [SetTimeout (pollingTime ?w1),
                                     DescribeDeployments [''d-1'']]\<rparr>"
  have s: "state freshWorld \<noteq> Some ''successfull''" "state freshWorld \<noteq> Some ''failed''"
    by (simp_all add: sample_defs)
  have h1: "aws_describeDeployments railsClient
        (trace freshWorld @ [SetTimeout (pollingTime freshWorld)]) [''d-1''] =
       Inr (Some [\<lparr>DeploymentId = ''d-1'', Deployment_Status = ''running''\<rparr>])"
    by (simp add: sample_defs)
  have s': "state ?w1 \<noteq> Some ''successfull''" "state ?w1 \<noteq> Some ''failed''"
    by (simp_all add: sample_defs)
  have h2: "aws_describeDeployments railsClient
        (trace ?w1 @ [SetTimeout (pollingTime ?w1)]) [''d-1''] =
       Inr (Some [\<lparr>DeploymentId = ''d-1'', Deployment_Status = ''successful''\<rparr>])"
    by (simp add: sample_defs)
  have d: "determineDeploymentStatus [\<lparr>DeploymentId = ''d-1'', Deployment_Status = ''running''\<rparr>]
             = Some ''running''"
    "determineDeploymentStatus [\<lparr>DeploymentId = ''d-1'', Deployment_Status = ''successful''\<rparr>]
             = Some ''successful''"
    by (simp_all add: determineDeploymentStatus_def determineStep_def)
  have len1: "length [\<lparr>DeploymentId = ''d-1'', Deployment_Status = ''running''\<rparr>] = length [''d-1'']"
    and len2: "length [\<lparr>DeploymentId = ''d-1'', Deployment_Status = ''successful''\<rparr>] = length [''d-1'']"
    by simp_all
  have a: "waitForDeployFinish (Suc (Suc 0)) railsClient freshWorld [''d-1''] =
      waitForDeployFinish (Suc 0) railsClient ?w1 [''d-1'']"
    using waitForDeployFinish_iteration [OF s h1 len1 refl, of "Suc 0" 0, THEN conjunct1]
    by (simp add: d)
  have b: "waitForDeployFinish (Suc 0) railsClient ?w1 [''d-1''] = (?w2, Some (Inr ''successful''))"
    using waitForDeployFinish_iteration [OF s' h2 len2 refl, of 0 0, THEN conjunct1]
    by (simp add: d)
  have c: "?w2 = \<lparr>state = None, deployStatus = Some ''successful'', pollingTime = 10000,
         trace = [SetTimeout 10000, DescribeDeployments [''d-1''],
                  SetTimeout 10000, DescribeDeployments [''d-1'']]\<rparr>"
    by (simp add: d sample_defs)
  show ?thesis
    using s h1 a b c by simp
qed

text \<open>
  Claim C9. For the empty list of deployment records \<open>determineDeploymentStatus\<close>
  returns \<^verbatim>\<open>null\<close>, which is none of the three recognised statuses. So
  \<open>getDeploymentStatus\<close> for an empty list of ids, answered with an empty list of
  records, yields \<^verbatim>\<open>null\<close>, and \<open>waitForDeployFinish\<close> then ends with the
  unknown-status error, not with "successful".
\<close>

theorem empty_deployments_unknown_status:
  "determineDeploymentStatus [] = None
   \<and> (aws_describeDeployments aws (trace w) [] = Inr (Some []) \<longrightarrow>
        snd (getDeploymentStatus aws w []) = Inr None)
   \<and> (state w \<noteq> Some ''successfull'' \<and> state w \<noteq> Some ''failed''
        \<and> aws_describeDeployments aws (trace w @ [SetTimeout (pollingTime w)]) [] = Inr (Some [])
      \<longrightarrow> snd (waitForDeployFinish (Suc n) aws w []) = Some (Inl (UnknownStatus None)))"
proof -
  have d: "determineDeploymentStatus [] = None"
    by (simp add: determineDeploymentStatus_def)
  have g: "\<And>v. aws_describeDeployments aws (trace v) [] = Inr (Some []) \<Longrightarrow>
      snd (getDeploymentStatus aws v []) = Inr None"
    by (simp add: getDeploymentStatus_def Let_def d)
  have p: "state w \<noteq> Some ''successfull'' \<Longrightarrow> state w \<noteq> Some ''failed'' \<Longrightarrow>
      aws_describeDeployments aws (trace w @ [SetTimeout (pollingTime w)]) [] = Inr (Some []) \<Longrightarrow>
      snd (waitForDeployFinish (Suc n) aws w []) = Some (Inl (UnknownStatus None))"
  proof -
    assume s: "state w \<noteq> Some ''successfull''" "state w \<noteq> Some ''failed''"
      and a: "aws_describeDeployments aws (trace w @ [SetTimeout (pollingTime w)]) [] = Inr (Some [])"
    have e: "earlyExit w = None" using s by (simp add: earlyExit_None)
    have "snd (getDeploymentStatus aws (call w (SetTimeout (pollingTime w))) []) = Inr None"
      using a by (intro g) simp
    then show ?thesis
      by (simp add: waitForDeployFinish_unfold [OF e])
  qed
  show ?thesis using d g p by blast
qed

theorem empty_deployments_unknown_status_witness:
  "state freshWorld \<noteq> Some ''successfull'' \<and> state freshWorld \<noteq> Some ''failed''
   \<and> aws_describeDeployments noRecordsClient
        (trace freshWorld @ [SetTimeout (pollingTime freshWorld)]) [] = Inr (Some [])
   \<and> snd (getDeploymentStatus noRecordsClient freshWorld []) = Inr None
   \<and> snd (waitForDeployFinish (Suc 0) noRecordsClient freshWorld []) =
       Some (Inl (UnknownStatus None))"
proof -
  have h1: "state freshWorld \<noteq> Some ''successfull'' \<and> state freshWorld \<noteq> Some ''failed''
   \<and> aws_describeDeployments noRecordsClient
        (trace freshWorld @ [SetTimeout (pollingTime freshWorld)]) [] = Inr (Some [])"
    by (simp add: sample_defs)
  have h2: "aws_describeDeployments noRecordsClient (trace freshWorld) [] = Inr (Some [])"
    by (simp add: sample_defs)
  note t = empty_deployments_unknown_status [of noRecordsClient freshWorld 0]
  show ?thesis
    using h1 h2 t by blast
qed

section \<open>The deploy pipeline\<close>

lemma findApp_world: "findApp aws w appId = (w1, r) \<Longrightarrow> w1 = call w (DescribeApps [appId])"
  using fst_findApp [of aws w appId] by simp

lemma updateApp_world:
  "updateApp aws w appId url = (w1, r) \<Longrightarrow> w1 = call w (UpdateApp appId url)"
  using fst_updateApp [of aws w appId url] by simp

lemma createDeployment_world:
  "createDeployment aws w stackId appId = (w1, r) \<Longrightarrow> w1 = call w (CreateDeployment stackId appId)"
  using fst_createDeployment [of aws w stackId appId] by simp

lemma findRunningInstances_world:
  "findRunningInstances aws w stackId layerType = (w1, r) \<Longrightarrow>
     state w1 = state w \<and> pollingTime w1 = pollingTime w"
  using state_findRunningInstances [of aws w stackId layerType]
    pollingTime_findRunningInstances [of aws w stackId layerType] by simp

text \<open>
  The last two steps of the waterfall: one creation, then only polling.
\<close>

lemma createAndWait:
  "\<exists>polls. list_all isPoll polls
     \<and> state (fst (case createDeployment aws w stackId appId of
          (w4, Inl err) \<Rightarrow> (w4, Some (Inl err))
        | (w4, Inr deploymentId) \<Rightarrow> waitForDeployFinish n aws w4 [deploymentId])) = state w
     \<and> trace (fst (case createDeployment aws w stackId appId of
          (w4, Inl err) \<Rightarrow> (w4, Some (Inl err))
        | (w4, Inr deploymentId) \<Rightarrow> waitForDeployFinish n aws w4 [deploymentId])) =
       trace w @ CreateDeployment stackId appId # polls"
proof (cases "createDeployment aws w stackId appId")
  case (Pair w4 r)
  note w4 = createDeployment_world [OF Pair]
  show ?thesis
  proof (cases r)
    case (Inl err)
    show ?thesis unfolding Pair Inl using w4 by (intro exI [of _ "[]"]) simp
  next
    case (Inr deploymentId)
    from waitForDeployFinish_frame [where n = n and aws = aws and w = w4
        and ids = "[deploymentId]"] obtain polls where
      "list_all isPoll polls"
      "state (fst (waitForDeployFinish n aws w4 [deploymentId])) = state w4"
      "trace (fst (waitForDeployFinish n aws w4 [deploymentId])) = trace w4 @ polls"
      by blast
    then show ?thesis unfolding Pair Inr using w4 by (intro exI [of _ polls]) simp
  qed
qed

lemma deploy_from_update:
  assumes "findApp aws w appId = (w1, Inr app)"
    and "findRunningInstances aws w1 (StackId app) (App_Type app @ ''-app'') = (w2, Inr instances)"
  shows "deploy n aws w appId s3SourceUrl =
     (case (if truthy s3SourceUrl
            then updateApp aws w2 (AppId app) (the s3SourceUrl)
            else (w2, Inr ())) of
        (w3, Inl err) \<Rightarrow> (w3, Some (Inl err))
      | (w3, Inr _) \<Rightarrow>
     (case createDeployment aws w3 (StackId app) (AppId app) of
        (w4, Inl err) \<Rightarrow> (w4, Some (Inl err))
      | (w4, Inr deploymentId) \<Rightarrow>
          waitForDeployFinish n aws w4 [deploymentId]))"
  by (simp add: deploy_def assms)

lemma deploy_from_update_frame:
  assumes "findApp aws w appId = (w1, Inr app)"
    and "findRunningInstances aws w1 (StackId app) (App_Type app @ ''-app'') = (w2, Inr instances)"
  shows "state (fst (deploy n aws w appId s3SourceUrl)) = state w2
    \<and> (\<not> truthy s3SourceUrl \<longrightarrow>
         (\<exists>polls. list_all isPoll polls
            \<and> trace (fst (deploy n aws w appId s3SourceUrl)) =
                trace w2 @ CreateDeployment (StackId app) (AppId app) # polls))
    \<and> (\<forall>url. s3SourceUrl = Some url \<and> url \<noteq> [] \<longrightarrow>
         (\<exists>polls. list_all isPoll polls
            \<and> trace (fst (deploy n aws w appId s3SourceUrl)) =
                trace w2 @ UpdateApp (AppId app) url #
                  (if aws_updateApp aws (trace w2) (AppId app) url = None
                   then CreateDeployment (StackId app) (AppId app) # polls
                   else [])))"
proof (cases "truthy s3SourceUrl")
  case False
  have eq: "deploy n aws w appId s3SourceUrl =
     (case createDeployment aws w2 (StackId app) (AppId app) of
        (w4, Inl err) \<Rightarrow> (w4, Some (Inl err))
      | (w4, Inr deploymentId) \<Rightarrow> waitForDeployFinish n aws w4 [deploymentId])"
    using False by (simp add: deploy_from_update [OF assms])
  have no: "\<And>url. s3SourceUrl = Some url \<Longrightarrow> url = []"
    using False by auto
  from createAndWait [where aws = aws and w = w2 and stackId = "StackId app"
      and appId = "AppId app" and n = n] obtain polls where
      p: "list_all isPoll polls"
      "state (fst (deploy n aws w appId s3SourceUrl)) = state w2"
      "trace (fst (deploy n aws w appId s3SourceUrl)) =
         trace w2 @ CreateDeployment (StackId app) (AppId app) # polls"
    unfolding eq by blast
  show ?thesis
    using False no p by auto
next
  case True
  then obtain url where url: "s3SourceUrl = Some url" "url \<noteq> []"
    by (cases s3SourceUrl) auto
  let ?w3 = "call w2 (UpdateApp (AppId app) url)"
  show ?thesis
  proof (cases "aws_updateApp aws (trace w2) (AppId app) url")
    case (Some err)
    then have u: "updateApp aws w2 (AppId app) url = (?w3, Inl (UpstreamError err))"
      by (simp add: updateApp_def)
    have eq: "deploy n aws w appId s3SourceUrl = (?w3, Some (Inl (UpstreamError err)))"
      using True url u by (simp add: deploy_from_update [OF assms])
    have "\<exists>polls. list_all isPoll polls" by (rule exI [of _ "[]"]) simp
    then show ?thesis unfolding eq using True url Some by simp
  next
    case None
    then have u: "updateApp aws w2 (AppId app) url = (?w3, Inr ())"
      by (simp add: updateApp_def)
    have eq: "deploy n aws w appId s3SourceUrl =
     (case createDeployment aws ?w3 (StackId app) (AppId app) of
        (w4, Inl err) \<Rightarrow> (w4, Some (Inl err))
      | (w4, Inr deploymentId) \<Rightarrow> waitForDeployFinish n aws w4 [deploymentId])"
      using True url u by (simp add: deploy_from_update [OF assms])
    from createAndWait [where aws = aws and w = ?w3 and stackId = "StackId app"
      and appId = "AppId app" and n = n] obtain polls where
      p: "list_all isPoll polls"
      "state (fst (deploy n aws w appId s3SourceUrl)) = state ?w3"
      "trace (fst (deploy n aws w appId s3SourceUrl)) =
         trace ?w3 @ CreateDeployment (StackId app) (AppId app) # polls"
      unfolding eq by blast
    show ?thesis using True url None p by auto
  qed
qed

lemma deploy_extends:
  assumes "findApp aws w appId = (w1, Inr app)"
    and "findRunningInstances aws w1 (StackId app) (App_Type app @ ''-app'') = (w2, r)"
  shows "\<exists>rest. trace (fst (deploy n aws w appId s3SourceUrl)) = trace w2 @ rest"
proof (cases r)
  case (Inl err)
  then show ?thesis using assms by (simp add: deploy_def)
next
  case (Inr instances)
  show ?thesis
  proof (cases "truthy s3SourceUrl")
    case False
    then show ?thesis
      using deploy_from_update_frame [OF assms(1) assms(2) [unfolded Inr], of n s3SourceUrl]
      by auto
  next
    case True
    then obtain url where "s3SourceUrl = Some url" "url \<noteq> []"
      by (cases s3SourceUrl) auto
    then show ?thesis
      using deploy_from_update_frame [OF assms(1) assms(2) [unfolded Inr], of n s3SourceUrl]
      by auto
  qed
qed

lemma state_deploy: "state (fst (deploy n aws w appId s3SourceUrl)) = state w"
proof (cases "findApp aws w appId")
  case (Pair w1 r1)
  note w1 = findApp_world [OF Pair]
  show ?thesis
  proof (cases r1)
    case (Inl err)
    then show ?thesis using Pair w1 by (simp add: deploy_def)
  next
    case (Inr app)
    obtain w2 r2 where f: "findRunningInstances aws w1 (StackId app) (App_Type app @ ''-app'') = (w2, r2)"
      by (cases "findRunningInstances aws w1 (StackId app) (App_Type app @ ''-app'')")
    note w2 = findRunningInstances_world [OF f]
    show ?thesis
    proof (cases r2)
      case (Inl err)
      then show ?thesis using Pair Inr f w1 w2 by (simp add: deploy_def)
    next
      case (Inr instances)
      show ?thesis
        using deploy_from_update_frame [OF Pair [unfolded \<open>r1 = Inr app\<close>] f [unfolded Inr]] w1 w2
        by simp
    qed
  qed
qed

text \<open>
  Claim C7. In every run of \<open>deploy\<close> that reaches the update step (the application
  was found, and so were the running instances of its layer): if no source URL was
  supplied (\<^verbatim>\<open>s3SourceUrl\<close> is falsy at line 64, which the empty string is too),
  \<open>updateApp\<close> is not invoked, the next call after the three lookups is
  \<open>createDeployment\<close>, and it is the only one, everything after it being polling; if a
  source URL was supplied, the next call is \<open>updateApp\<close> with the application's id and
  exactly that URL, and \<open>createDeployment\<close> comes right after it, once, followed by
  polling only (when the update fails the run ends with the update).
\<close>

theorem deploy_update_step:
  assumes "findApp aws w appId = (w1, Inr app)"
    and "findRunningInstances aws w1 (StackId app) (App_Type app @ ''-app'') = (w2, Inr instances)"
  shows "(\<exists>layerId. trace w2 =
            trace w @ [DescribeApps [appId], DescribeLayers (StackId app), DescribeInstances layerId])
    \<and> (\<not> truthy s3SourceUrl \<longrightarrow>
         (\<exists>polls. list_all isPoll polls
            \<and> trace (fst (deploy n aws w appId s3SourceUrl)) =
                trace w2 @ CreateDeployment (StackId app) (AppId app) # polls))
    \<and> (\<forall>url. s3SourceUrl = Some url \<and> url \<noteq> [] \<longrightarrow>
         (\<exists>polls. list_all isPoll polls
            \<and> trace (fst (deploy n aws w appId s3SourceUrl)) =
                trace w2 @ UpdateApp (AppId app) url #
                  (if aws_updateApp aws (trace w2) (AppId app) url = None
                   then CreateDeployment (StackId app) (AppId app) # polls
                   else [])))"
proof -
  have w1: "w1 = call w (DescribeApps [appId])"
    using assms(1) by (rule findApp_world)
  have "\<exists>layerId. trace w2 =
      trace w1 @ [DescribeLayers (StackId app), DescribeInstances layerId]"
    using findRunningInstances_cases [of aws w1 "StackId app" "App_Type app @ ''-app''"] assms(2)
    by auto
  then have "\<exists>layerId. trace w2 =
            trace w @ [DescribeApps [appId], DescribeLayers (StackId app), DescribeInstances layerId]"
    using w1 by simp
  then show ?thesis
    using deploy_from_update_frame [OF assms, of n s3SourceUrl] by simp
qed

theorem deploy_update_step_witness:
  "findApp railsClient freshWorld ''app-1'' =
     (call freshWorld (DescribeApps [''app-1'']), Inr sampleApp)
   \<and> findRunningInstances railsClient (call freshWorld (DescribeApps [''app-1'']))
        (StackId sampleApp) (App_Type sampleApp @ ''-app'') =
       (call (call (call freshWorld (DescribeApps [''app-1''])) (DescribeLayers ''stack-1''))
          (DescribeInstances ''layer-1''),
        Inr [\<lparr>InstanceId = ''i-2'', Instance_Status = ''online''\<rparr>])
   \<and> deploy (Suc (Suc 0)) railsClient freshWorld ''app-1'' None =
       (\<lparr>state = None, deployStatus = Some ''successful'', pollingTime = 10000,
         trace = [DescribeApps [''app-1''], DescribeLayers ''stack-1'',
                  DescribeInstances ''layer-1'', CreateDeployment ''stack-1'' ''app-1'',
                  SetTimeout 10000, DescribeDeployments [''d-1''],
                  SetTimeout 10000, DescribeDeployments [''d-1'']]\<rparr>,
        Some (Inr ''successful''))
   \<and> take 5 (trace (fst (deploy (Suc (Suc 0)) railsClient freshWorld ''app-1''
                 (Some ''https://s3/deployment-1.0.0.tar.gz'')))) =
       [DescribeApps [''app-1''], DescribeLayers ''stack-1'', DescribeInstances ''layer-1'',
        UpdateApp ''app-1'' ''https://s3/deployment-1.0.0.tar.gz'',
        CreateDeployment ''stack-1'' ''app-1'']"
proof -
  let ?w1 = "call freshWorld (DescribeApps [''app-1''])"
  let ?w2 = "call (call ?w1 (DescribeLayers ''stack-1'')) (DescribeInstances ''layer-1'')"
  have h1: "findApp railsClient freshWorld ''app-1'' = (?w1, Inr sampleApp)"
    by (simp add: findApp_def Let_def sample_defs)
  have h2: "findRunningInstances railsClient ?w1 (StackId sampleApp) (App_Type sampleApp @ ''-app'') =
       (?w2, Inr [\<lparr>InstanceId = ''i-2'', Instance_Status = ''online''\<rparr>])"
    by (simp add: run_defs sample_defs)
  note t = deploy_update_step [OF h1 h2, where n = "Suc (Suc 0)" and s3SourceUrl = None]
    deploy_update_step [OF h1 h2, where n = "Suc (Suc 0)"
      and s3SourceUrl = "Some ''https://s3/deployment-1.0.0.tar.gz''"]
  have a: "deploy (Suc (Suc 0)) railsClient freshWorld ''app-1'' None =
       (\<lparr>state = None, deployStatus = Some ''successful'', pollingTime = 10000,
         trace = [DescribeApps [''app-1''], DescribeLayers ''stack-1'',
                  DescribeInstances ''layer-1'', CreateDeployment ''stack-1'' ''app-1'',
                  SetTimeout 10000, DescribeDeployments [''d-1''],
                  SetTimeout 10000, DescribeDeployments [''d-1'']]\<rparr>,
        Some (Inr ''successful''))"
    by (simp add: run_defs sample_defs)
  have b: "take 5 (trace (fst (deploy (Suc (Suc 0)) railsClient freshWorld ''app-1''
                 (Some ''https://s3/deployment-1.0.0.tar.gz'')))) =
       [DescribeApps [''app-1''], DescribeLayers ''stack-1'', DescribeInstances ''layer-1'',
        UpdateApp ''app-1'' ''https://s3/deployment-1.0.0.tar.gz'',
        CreateDeployment ''stack-1'' ''app-1'']"
    by (simp add: run_defs sample_defs)
  show ?thesis using h1 h2 a b t by simp
qed

text \<open>
  Claim C6. In every run of \<open>deploy\<close> in which the application is found, with type
  \<open>T\<close>, and the layers of its stack are listed, the layer looked up is the one of type
  \<open>T\<close> followed by "-app": if the listing has no layer of that type, the run ends with
  a not-found error (no layers at all, or no layer of that type) after the two
  lookups, so that \<open>createDeployment\<close> is not invoked; if it has one, the instances
  requested next are those of the first layer of that type.
\<close>

theorem deploy_layer_lookup:
  assumes "findApp aws w appId = (w1, Inr app)"
    and "aws_describeLayers aws (trace w1) (StackId app) = Inr Layers"
  shows "((\<forall>ls. Layers = Some ls \<longrightarrow> (\<forall>l \<in> set ls. Layer_Type l \<noteq> App_Type app @ ''-app'')) \<longrightarrow>
            deploy n aws w appId s3SourceUrl =
              (w\<lparr>trace := trace w @ [DescribeApps [appId], DescribeLayers (StackId app)]\<rparr>,
               Some (Inl (if Layers = None \<or> Layers = Some []
                          then NoLayersFound (StackId app)
                          else LayerNotFound (App_Type app @ ''-app'') (StackId app)))))
       \<and> (\<forall>pre l post. Layers = Some (pre @ l # post) \<and> Layer_Type l = App_Type app @ ''-app''
              \<and> (\<forall>x \<in> set pre. Layer_Type x \<noteq> App_Type app @ ''-app'') \<longrightarrow>
            (\<exists>rest. trace (fst (deploy n aws w appId s3SourceUrl)) =
               trace w @ [DescribeApps [appId], DescribeLayers (StackId app),
                          DescribeInstances (LayerId l)] @ rest))"
proof (intro conjI impI allI)
  let ?t = "App_Type app @ ''-app''"
  have w1: "w1 = call w (DescribeApps [appId])"
    using assms(1) by (rule findApp_world)
  assume none: "\<forall>ls. Layers = Some ls \<longrightarrow> (\<forall>l \<in> set ls. Layer_Type l \<noteq> ?t)"
  have l: "findLayerByType aws w1 (StackId app) ?t =
     (call w1 (DescribeLayers (StackId app)),
      if Layers = None \<or> Layers = Some [] then Inl (NoLayersFound (StackId app)) else Inr None)"
    using assms(2) none
    by (auto simp: findLayerByType_def Let_def findLayerLoop_find no_layer_of_type split: option.splits)
  have "findRunningInstances aws w1 (StackId app) ?t =
     (call w1 (DescribeLayers (StackId app)),
      Inl (if Layers = None \<or> Layers = Some [] then NoLayersFound (StackId app)
           else LayerNotFound ?t (StackId app)))"
    by (simp add: findRunningInstances_def l)
  then show "deploy n aws w appId s3SourceUrl =
              (w\<lparr>trace := trace w @ [DescribeApps [appId], DescribeLayers (StackId app)]\<rparr>,
               Some (Inl (if Layers = None \<or> Layers = Some []
                          then NoLayersFound (StackId app)
                          else LayerNotFound ?t (StackId app))))"
    using assms(1) w1 by (simp add: deploy_def call_def)
next
  fix pre l post
  let ?t = "App_Type app @ ''-app''"
  assume a: "Layers = Some (pre @ l # post) \<and> Layer_Type l = ?t
              \<and> (\<forall>x \<in> set pre. Layer_Type x \<noteq> ?t)"
  have w1: "w1 = call w (DescribeApps [appId])"
    using assms(1) by (rule findApp_world)
  have l: "findLayerByType aws w1 (StackId app) ?t =
     (call w1 (DescribeLayers (StackId app)), Inr (Some l))"
    using assms(2) a
    by (simp add: findLayerByType_def Let_def findLayerLoop_find first_layer_of_type)
  obtain w2 r where f: "findRunningInstances aws w1 (StackId app) ?t = (w2, r)"
    by (cases "findRunningInstances aws w1 (StackId app) ?t")
  have "fst (findRunningInstances aws w1 (StackId app) ?t) =
      call (call w1 (DescribeLayers (StackId app))) (DescribeInstances (LayerId l))"
    using l by (rule findRunningInstances_found)
  then have w2: "trace w2 = trace w @ [DescribeApps [appId], DescribeLayers (StackId app),
                          DescribeInstances (LayerId l)]"
    using f w1 by simp
  from deploy_extends [OF assms(1) f, of n s3SourceUrl] obtain rest where
    "trace (fst (deploy n aws w appId s3SourceUrl)) = trace w2 @ rest" ..
  then show "\<exists>rest. trace (fst (deploy n aws w appId s3SourceUrl)) =
               trace w @ [DescribeApps [appId], DescribeLayers (StackId app),
                          DescribeInstances (LayerId l)] @ rest"
    unfolding w2 by (intro exI [of _ rest]) simp
qed

theorem deploy_layer_lookup_witness:
  "findApp otherLayerClient freshWorld ''app-1'' =
     (call freshWorld (DescribeApps [''app-1'']), Inr sampleApp)
   \<and> aws_describeLayers otherLayerClient
        (trace (call freshWorld (DescribeApps [''app-1'']))) (StackId sampleApp) =
       Inr (Some [\<lparr>LayerId = ''layer-0'', Layer_Type = ''db-master''\<rparr>])
   \<and> deploy (Suc 0) otherLayerClient freshWorld ''app-1'' None =
       (freshWorld\<lparr>trace := [DescribeApps [''app-1''], DescribeLayers ''stack-1'']\<rparr>,
        Some (Inl (LayerNotFound ''rails-app'' ''stack-1'')))"
proof -
  have h1: "findApp otherLayerClient freshWorld ''app-1'' =
     (call freshWorld (DescribeApps [''app-1'']), Inr sampleApp)"
    by (simp add: findApp_def Let_def sample_defs)
  have h2: "aws_describeLayers otherLayerClient
        (trace (call freshWorld (DescribeApps [''app-1'']))) (StackId sampleApp) =
       Inr (Some [\<lparr>LayerId = ''layer-0'', Layer_Type = ''db-master''\<rparr>])"
    by (simp add: sample_defs)
  have "deploy (Suc 0) otherLayerClient freshWorld ''app-1'' None =
       (freshWorld\<lparr>trace := [DescribeApps [''app-1''], DescribeLayers ''stack-1'']\<rparr>,
        Some (Inl (LayerNotFound ''rails-app'' ''stack-1'')))"
    using deploy_layer_lookup [OF h1 h2, of "Suc 0" None, THEN conjunct1]
    by (simp add: sample_defs)
  then show ?thesis using h1 h2 by simp
qed

section \<open>The field read by the early exit\<close>

lemma reachable_state: "reachable aws w \<Longrightarrow> state w = None"
proof (induction rule: reachable.induct)
  case (r_new p)
  show ?case by (simp add: new_OpsWorksDeploy_def)
next
  case (r_waitForDeployFinish w n ids)
  then show ?case
    using waitForDeployFinish_frame [where n = n and aws = aws and w = w and ids = ids] by simp
qed (simp_all add: fst_findApp fst_findLayerByType fst_findRunningInstancesByLayerId
      fst_createDeployment fst_getDeploymentStatus fst_updateApp deployLatest_def
      state_findRunningInstances state_deploy)

text \<open>
  Claim C10. No operation of the orchestrator assigns \<^verbatim>\<open>this.state\<close>, the field that
  the test at line 264 reads (the results of polling go to \<^verbatim>\<open>this.deployStatus\<close>): in
  every world that an orchestrator object can reach it is still \<^verbatim>\<open>undefined\<close>. So the
  test never ends \<open>waitForDeployFinish\<close>: each of its invocations, the recursive ones
  included, waits the polling interval and then requests the status of the
  deployments again. The trace of \<open>n\<close> invocations at most is \<open>k\<close> such pairs, with
  \<open>k = n\<close> when the run is still polling.
\<close>

theorem state_never_assigned:
  assumes "reachable aws w"
  shows "state w = None
    \<and> (\<exists>k. k \<le> n \<and> (0 < n \<longrightarrow> 0 < k)
         \<and> (snd (waitForDeployFinish n aws w ids) = None \<longrightarrow> k = n)
         \<and> trace (fst (waitForDeployFinish n aws w ids)) =
             trace w @ concat (replicate k [SetTimeout (pollingTime w), DescribeDeployments ids]))"
proof -
  have s: "state w = None" using assms by (rule reachable_state)
  then have "earlyExit w = None" by (simp add: earlyExit_def)
  from waitForDeployFinish_polls [OF this, where n = n and aws = aws and ids = ids]
  obtain k where k: "k \<le> n" "0 < n \<longrightarrow> 0 < k"
    "snd (waitForDeployFinish n aws w ids) = None \<longrightarrow> k = n"
    "trace (fst (waitForDeployFinish n aws w ids)) =
       trace w @ concat (replicate k [SetTimeout (pollingTime w), DescribeDeployments ids])"
    by (elim exE conjE)
  have "\<exists>k. k \<le> n \<and> (0 < n \<longrightarrow> 0 < k)
         \<and> (snd (waitForDeployFinish n aws w ids) = None \<longrightarrow> k = n)
         \<and> trace (fst (waitForDeployFinish n aws w ids)) =
             trace w @ concat (replicate k [SetTimeout (pollingTime w), DescribeDeployments ids])"
    using k by (intro exI [of _ k] conjI)
  then show ?thesis using s by (rule conjI [rotated])
qed

theorem state_never_assigned_witness:
  "reachable railsClient (fst (findApp railsClient freshWorld ''app-1''))
   \<and> state (fst (findApp railsClient freshWorld ''app-1'')) = None
   \<and> trace (fst (waitForDeployFinish (Suc 0) railsClient
               (fst (findApp railsClient freshWorld ''app-1'')) [''d-1''])) =
       [DescribeApps [''app-1''], SetTimeout 10000, DescribeDeployments [''d-1'']]"
proof -
  let ?w = "fst (findApp railsClient freshWorld ''app-1'')"
  have r: "reachable railsClient ?w"
    unfolding freshWorld_def by (intro r_findApp r_new)
  have w: "trace ?w = [DescribeApps [''app-1'']]" "pollingTime ?w = 10000"
    by (simp_all add: fst_findApp sample_defs)
  from state_never_assigned [OF r, of "Suc 0" "[''d-1'']"] obtain k where
    k: "k \<le> Suc 0" "0 < k"
    and t: "trace (fst (waitForDeployFinish (Suc 0) railsClient ?w [''d-1''])) =
       trace ?w @ concat (replicate k [SetTimeout (pollingTime ?w), DescribeDeployments [''d-1'']])"
    and s: "state ?w = None"
    by auto
  from k have "k = Suc 0" by simp
  then show ?thesis using r s t w by simp
qed

end
